theory Spec2Isabelle
  imports Complex_Main "HOL-Library.Sublist"
begin

section \<open>Data model of qbit-mover-manage.py\<close>

text \<open>
  A torrent as the qBittorrent client reports it. Only the attributes the script reads
  are kept: \<open>hash\<close>, \<open>name\<close>, \<open>content_path\<close> and \<open>added_on\<close> (epoch seconds, an
  integer in the client's JSON).
\<close>

record torrent =
  hash :: string
  name :: string
  content_path :: string
  added_on :: int

text \<open>
  The two window bounds are Python floats (\<open>datetime.timestamp()\<close>). Python compares an
  int with a float exactly, so a finite float is the real number it denotes; the two
  infinities and NaN are kept as values of their own, with Python's comparison results.
\<close>

datatype pyfloat = Finite real | PosInf | NegInf | NaN

fun float_le_int :: "pyfloat \<Rightarrow> int \<Rightarrow> bool" where
  "float_le_int (Finite r) a = (r \<le> of_int a)"
| "float_le_int PosInf a = False"
| "float_le_int NegInf a = True"
| "float_le_int NaN a = False"

fun int_le_float :: "int \<Rightarrow> pyfloat \<Rightarrow> bool" where
  "int_le_float a (Finite r) = (of_int a \<le> r)"
| "int_le_float a PosInf = True"
| "int_le_float a NegInf = False"
| "int_le_float a NaN = False"

fun int_lt_float :: "int \<Rightarrow> pyfloat \<Rightarrow> bool" where
  "int_lt_float a (Finite r) = (of_int a < r)"
| "int_lt_float a PosInf = True"
| "int_lt_float a NegInf = False"
| "int_lt_float a NaN = False"

fun float_le :: "pyfloat \<Rightarrow> pyfloat \<Rightarrow> bool" where
  "float_le NaN y = False"
| "float_le x NaN = False"
| "float_le NegInf y = True"
| "float_le x PosInf = True"
| "float_le (Finite r) (Finite s) = (r \<le> s)"
| "float_le x y = False"

subsection \<open>The file system, as far as the script asks it\<close>

text \<open>
  What \<open>json.load\<close> makes of a file's bytes: text that cannot be decoded, text that is
  not JSON, or the Python value the JSON text denotes. A JSON object is a Python dict,
  written as an association list in which the first binding of a key is the one the
  dict holds.
\<close>

datatype json =
    JNull
  | JBool bool
  | JInt int
  | JReal real
  | JStr string
  | JArr "json list"
  | JObj "(string \<times> json) list"

datatype content = Undecodable | Unparseable | Parses json

datatype stat_outcome = StatOk | StatNotFound | StatOSError string

datatype write_outcome = WriteOk | WriteDiscarded | OpenFails string | DumpFails string

text \<open>
  The answers of the operating system are fields of the record: \<open>stat\<close> is the outcome of
  \<open>os.stat\<close> on a path, \<open>access_w\<close> is \<open>os.access(p, os.W_OK)\<close>, \<open>abspath\<close> is
  \<open>os.path.abspath\<close> (it depends on the working directory of the process),
  \<open>read_error\<close> is the \<open>OSError\<close> other than \<open>FileNotFoundError\<close> that opening a path for
  reading raises, \<open>write_result\<close> says what opening a path for writing and dumping to
  it does (the text is kept, as a regular file keeps it; the text is accepted and
  dropped, as a device such as \<open>/dev/null\<close> does; \<open>open\<close> fails; the dump fails),
  \<open>remove_error\<close> is the \<open>OSError\<close> that \<open>os.remove\<close> raises on an
  existing file. \<open>files\<close> holds the contents of the regular files.
\<close>

record filesystem =
  files :: "string \<Rightarrow> content option"
  stat :: "string \<Rightarrow> stat_outcome"
  access_w :: "string \<Rightarrow> bool"
  abspath :: "string \<Rightarrow> string"
  read_error :: "string \<Rightarrow> string option"
  write_result :: "string \<Rightarrow> write_outcome"
  remove_error :: "string \<Rightarrow> string option"

section \<open>Selector: \<open>filter_torrents\<close> and \<open>exists_in_cache\<close>\<close>

text \<open>\<open>content_path.lstrip("/")\<close>: every leading slash is removed.\<close>

definition lstrip_slash :: "string \<Rightarrow> string" where
  "lstrip_slash s = dropWhile (\<lambda>c. c = CHR ''/'') s"

text \<open>
  \<open>os.path.join\<close> of \<open>posixpath\<close> with two arguments: an absolute second component
  replaces the first; otherwise the two are concatenated, with a separator unless the
  first is empty or already ends with one.
\<close>

definition os_path_join :: "string \<Rightarrow> string \<Rightarrow> string" where
  "os_path_join a b =
     (if b \<noteq> [] \<and> hd b = CHR ''/'' then b
      else if a = [] \<or> last a = CHR ''/'' then a @ b
      else a @ ''/'' @ b)"

text \<open>
  \<open>os.path.exists\<close> calls \<open>os.stat\<close> and answers \<open>False\<close> on every \<open>OSError\<close>, whatever
  its kind; it never raises.
\<close>

definition os_path_exists :: "filesystem \<Rightarrow> string \<Rightarrow> bool" where
  "os_path_exists fsys p = (case stat fsys p of StatOk \<Rightarrow> True | _ \<Rightarrow> False)"

definition exists_in_cache :: "filesystem \<Rightarrow> string \<Rightarrow> string \<Rightarrow> bool" where
  "exists_in_cache fsys cache_mount cpath =
     os_path_exists fsys (os_path_join cache_mount (lstrip_slash cpath))"

text \<open>The chained comparison \<open>timeoffset_to <= torrent.added_on <= timeoffset_from\<close>.\<close>

definition in_window :: "pyfloat \<Rightarrow> pyfloat \<Rightarrow> torrent \<Rightarrow> bool" where
  "in_window tfrom tto t = (float_le_int tto (added_on t) \<and> int_le_float (added_on t) tfrom)"

text \<open>
  The guard \<open>not cache_mount or exists_in_cache(cache_mount, torrent.content_path)\<close>.
  For Python both \<open>None\<close> and the empty string are false, so the second disjunct is
  only evaluated when \<open>cache_mount\<close> is a non-empty string.
\<close>

definition cache_ok :: "filesystem \<Rightarrow> string option \<Rightarrow> torrent \<Rightarrow> bool" where
  "cache_ok fsys cm t =
     (case cm of None \<Rightarrow> True
      | Some m \<Rightarrow> (if m = [] then True else exists_in_cache fsys m (content_path t)))"

text \<open>
  The loop of \<open>filter_torrents\<close>: a torrent in the window is appended when the cache
  guard holds, a torrent older than the window ends the loop (\<open>break\<close>), any other
  torrent is skipped.
\<close>

fun filter_torrents ::
  "filesystem \<Rightarrow> torrent list \<Rightarrow> pyfloat \<Rightarrow> pyfloat \<Rightarrow> string option \<Rightarrow> torrent list" where
  "filter_torrents fsys [] tfrom tto cm = []"
| "filter_torrents fsys (t # ts) tfrom tto cm =
     (if in_window tfrom tto t then
        (if cache_ok fsys cm t then t # filter_torrents fsys ts tfrom tto cm
         else filter_torrents fsys ts tfrom tto cm)
      else if int_lt_float (added_on t) tto then []
      else filter_torrents fsys ts tfrom tto cm)"

text \<open>Newest first: the order \<open>sort="added_on", reverse=True\<close> asks the client for.\<close>

definition sorted_desc :: "torrent list \<Rightarrow> bool" where
  "sorted_desc ts = sorted_wrt (\<lambda>x y. added_on y \<le> added_on x) ts"

section \<open>Errors\<close>

text \<open>
  A Python exception is a value: its class and the text \<open>str(e)\<close> gives. \<open>ClientError\<close>
  stands for the exceptions of the qBittorrent client library raised by a call on a
  torrent.
\<close>

datatype error =
    ValueError string
  | RuntimeError string
  | TypeError string
  | KeyError string
  | UnicodeDecodeError string
  | OverflowError string
  | ClientError string

section \<open>Command line: \<open>create_parser\<close> and \<open>validate_args\<close>\<close>

datatype action = Pause | Resume

text \<open>The namespace \<open>parser.parse_args()\<close> returns.\<close>

record args =
  action :: action
  host :: string
  user :: string
  password :: string
  cache_mount :: "string option"
  days_from :: int
  days_to :: int
  status_filter :: string
  state_file :: string
  verbose :: bool

text \<open>The defaults \<open>create_parser\<close> declares, which \<open>parser.get_default\<close> reads back.\<close>

record parser =
  default_user :: string
  default_password :: string
  default_cache_mount :: "string option"
  default_days_from :: int
  default_days_to :: int
  default_status_filter :: string
  default_state_file :: string

definition create_parser :: parser where
  "create_parser =
     \<lparr> default_user = ''admin'', default_password = ''adminadmin'',
       default_cache_mount = None, default_days_from = 0, default_days_to = 2,
       default_status_filter = ''completed'',
       default_state_file = ''./qbit_mover_state.json'' \<rparr>"

text \<open>
  What the user typed, after \<open>argparse\<close> has checked its syntax: the positional action,
  the required \<open>--host\<close>, and for every optional flag either the value supplied with it
  or \<open>None\<close> when the flag was not on the command line.
\<close>

record cli =
  cli_action :: action
  cli_host :: string
  cli_user :: "string option"
  cli_password :: "string option"
  cli_cache_mount :: "string option"
  cli_days_from :: "int option"
  cli_days_to :: "int option"
  cli_status_filter :: "string option"
  cli_state_file :: "string option"
  cli_verbose :: bool

text \<open>
  \<open>parse_args\<close>: an attribute holds the supplied value, or the declared default when
  the flag is absent. The namespace does not record which of the two happened.
\<close>

definition parse_args :: "parser \<Rightarrow> cli \<Rightarrow> args" where
  "parse_args p c =
     \<lparr> action = cli_action c, host = cli_host c,
       user = (case cli_user c of None \<Rightarrow> default_user p | Some v \<Rightarrow> v),
       password = (case cli_password c of None \<Rightarrow> default_password p | Some v \<Rightarrow> v),
       cache_mount = (case cli_cache_mount c of None \<Rightarrow> default_cache_mount p | Some v \<Rightarrow> Some v),
       days_from = (case cli_days_from c of None \<Rightarrow> default_days_from p | Some v \<Rightarrow> v),
       days_to = (case cli_days_to c of None \<Rightarrow> default_days_to p | Some v \<Rightarrow> v),
       status_filter =
         (case cli_status_filter c of None \<Rightarrow> default_status_filter p | Some v \<Rightarrow> v),
       state_file = (case cli_state_file c of None \<Rightarrow> default_state_file p | Some v \<Rightarrow> v),
       verbose = cli_verbose c \<rparr>"

text \<open>\<open>sep.join(xs)\<close>.\<close>

fun str_join :: "string \<Rightarrow> string list \<Rightarrow> string" where
  "str_join sep [] = []"
| "str_join sep [x] = x"
| "str_join sep (x # y # ys) = x @ sep @ str_join sep (y # ys)"

text \<open>
  The list comprehension of \<open>validate_args\<close>: the names, in the order of \<open>pause_params\<close>,
  of the attributes whose value differs from the parser's default.
\<close>

definition provided_params :: "args \<Rightarrow> parser \<Rightarrow> string list" where
  "provided_params a p =
     (if cache_mount a \<noteq> default_cache_mount p then [''cache_mount''] else []) @
     (if days_from a \<noteq> default_days_from p then [''days_from''] else []) @
     (if days_to a \<noteq> default_days_to p then [''days_to''] else []) @
     (if status_filter a \<noteq> default_status_filter p then [''status_filter''] else [])"

definition validate_args :: "args \<Rightarrow> parser \<Rightarrow> error + unit" where
  "validate_args a p =
     (if action a = Resume then
        (if provided_params a p \<noteq> [] then
           Inl (ValueError (''The following parameters are not valid with 'resume' action: '' @
                            str_join '', '' (provided_params a p)))
         else Inr ())
      else Inr ())"

section \<open>State store: \<open>save_torrent_state\<close> and \<open>load_torrent_state\<close>\<close>

text \<open>\<open>os.path.dirname\<close> of \<open>posixpath\<close>.\<close>

definition os_path_dirname :: "string \<Rightarrow> string" where
  "os_path_dirname p =
     (let head = rev (dropWhile (\<lambda>c. c \<noteq> CHR ''/'') (rev p))
      in if head \<noteq> [] \<and> head \<noteq> replicate (length head) (CHR ''/'')
         then rev (dropWhile (\<lambda>c. c = CHR ''/'') (rev head))
         else head)"

text \<open>The dict \<open>save_torrent_state\<close> builds; \<open>now\<close> is \<open>datetime.now().isoformat()\<close>.\<close>

definition make_state :: "string \<Rightarrow> torrent list \<Rightarrow> json" where
  "make_state now torrents =
     JObj [(''torrent_hashes'', JArr (map (\<lambda>t. JStr (hash t)) torrents)),
           (''timestamp'', JStr now),
           (''version'', JStr ''1.0'')]"

text \<open>
  \<open>save_torrent_state\<close>. Both directory checks raise an \<open>OSError\<close> inside the \<open>try\<close>, which
  the handler turns into a \<open>RuntimeError\<close>, as it does the errors of \<open>open\<close> and of
  \<open>json.dump\<close>. \<open>open(state_file, 'w')\<close> truncates: when the dump fails after it, the file
  is left with text that is not JSON. A completed dump to a path that keeps what is
  written leaves the text of the dump, which \<open>json.load\<close> reads back as the dict dumped
  (the \<open>json\<close> library's round trip for strings and lists of strings is taken for
  granted, not derived). A completed dump to a path that drops what is written leaves
  the file system as it was, and the save succeeds all the same.
\<close>

definition save_torrent_state ::
  "filesystem \<Rightarrow> string \<Rightarrow> torrent list \<Rightarrow> string \<Rightarrow> (error + unit) \<times> filesystem" where
  "save_torrent_state fsys now torrents path =
     (let state = make_state now torrents;
          state_dir = os_path_dirname (abspath fsys path)
      in if \<not> os_path_exists fsys state_dir then
           (Inl (RuntimeError (''Failed to save state file: Directory does not exist: '' @ state_dir)),
            fsys)
         else if \<not> access_w fsys state_dir then
           (Inl (RuntimeError (''Failed to save state file: Directory is not writable: '' @ state_dir)),
            fsys)
         else (case write_result fsys path of
                 OpenFails m \<Rightarrow> (Inl (RuntimeError (''Failed to save state file: '' @ m)), fsys)
               | DumpFails m \<Rightarrow>
                   (Inl (RuntimeError (''Failed to save state file: '' @ m)),
                    fsys\<lparr>files := (files fsys)(path \<mapsto> Unparseable)\<rparr>)
               | WriteDiscarded \<Rightarrow> (Inr (), fsys)
               | WriteOk \<Rightarrow> (Inr (), fsys\<lparr>files := (files fsys)(path \<mapsto> Parses state)\<rparr>)))"

text \<open>
  Python's \<open>key in value\<close> for a string key: a key of a dict, an element of a list, a
  substring of a string; any other JSON value is not iterable and the test raises.
\<close>

fun py_in :: "string \<Rightarrow> json \<Rightarrow> error + bool" where
  "py_in k (JObj kvs) = Inr (k \<in> set (map fst kvs))"
| "py_in k (JArr xs) = Inr (JStr k \<in> set xs)"
| "py_in k (JStr s) = Inr (sublist k s)"
| "py_in k JNull = Inl (TypeError ''argument of type 'NoneType' is not iterable'')"
| "py_in k (JBool b) = Inl (TypeError ''argument of type 'bool' is not iterable'')"
| "py_in k (JInt i) = Inl (TypeError ''argument of type 'int' is not iterable'')"
| "py_in k (JReal r) = Inl (TypeError ''argument of type 'float' is not iterable'')"

text \<open>
  \<open>all(key in state for key in required_keys)\<close> over the two required keys. Whether
  \<open>in\<close> raises depends on the state alone, so the order in which the set is walked and
  the short cut of \<open>all\<close> do not change the outcome.
\<close>

definition has_required_keys :: "json \<Rightarrow> error + bool" where
  "has_required_keys state =
     (case py_in ''torrent_hashes'' state of
        Inl e \<Rightarrow> Inl e
      | Inr b1 \<Rightarrow> (case py_in ''timestamp'' state of
                     Inl e \<Rightarrow> Inl e
                   | Inr b2 \<Rightarrow> Inr (b1 \<and> b2)))"

text \<open>
  \<open>load_torrent_state\<close>. The handlers catch \<open>FileNotFoundError\<close>, \<open>json.JSONDecodeError\<close>
  and \<open>IOError\<close>; the \<open>ValueError\<close> raised by the validation, a \<open>TypeError\<close> of the
  membership test and a \<open>UnicodeDecodeError\<close> of the read are none of these and leave
  the function as they are.
\<close>

definition load_torrent_state :: "filesystem \<Rightarrow> string \<Rightarrow> error + json" where
  "load_torrent_state fsys path =
     (case read_error fsys path of
        Some m \<Rightarrow> Inl (RuntimeError (''Failed to read state file: '' @ m))
      | None \<Rightarrow>
          (case files fsys path of
             None \<Rightarrow>
               Inl (RuntimeError (''No state file found at '' @ path @
                                  ''. Did you run with 'pause' first?''))
           | Some Undecodable \<Rightarrow>
               Inl (UnicodeDecodeError ''codec can't decode byte: invalid start byte'')
           | Some Unparseable \<Rightarrow>
               Inl (RuntimeError (''State file '' @ path @ '' is corrupted''))
           | Some (Parses state) \<Rightarrow>
               (case has_required_keys state of
                  Inl e \<Rightarrow> Inl e
                | Inr False \<Rightarrow> Inl (ValueError ''State file is missing required fields'')
                | Inr True \<Rightarrow> Inr state)))"

text \<open>\<open>os.remove\<close>: a missing file and any other refusal are both an \<open>OSError\<close>.\<close>

definition os_remove :: "filesystem \<Rightarrow> string \<Rightarrow> string + filesystem" where
  "os_remove fsys path =
     (case files fsys path of
        None \<Rightarrow> Inl ''No such file or directory''
      | Some c \<Rightarrow> (case remove_error fsys path of
                    Some m \<Rightarrow> Inl m
                  | None \<Rightarrow> Inr (fsys\<lparr>files := (files fsys)(path := None)\<rparr>)))"

section \<open>The client, the outside world and \<open>main\<close>\<close>

text \<open>
  The qBittorrent client as the script meets it. \<open>connect\<close> is the outcome of
  \<open>Client(host, username, password)\<close>, with \<open>str(e)\<close> of the exception raised;
  \<open>info_sorted f\<close> is the answer to
  \<open>torrents.info(status_filter=f, sort="added_on", reverse=True)\<close> and \<open>info_all\<close> the
  answer to \<open>torrents.info()\<close>; \<open>pause_error\<close> and \<open>resume_error\<close> give, by torrent hash,
  the exception \<open>torrent.pause()\<close> or \<open>torrent.resume()\<close> raises, if any; \<open>paused\<close> is
  the set of hashes of the torrents currently paused.
\<close>

datatype connect_outcome =
    Connected
  | LoginFailed string
  | APIConnectionError string
  | OtherException string

record qbit =
  connect :: "string \<Rightarrow> string \<Rightarrow> string \<Rightarrow> connect_outcome"
  info_sorted :: "string \<Rightarrow> torrent list"
  info_all :: "torrent list"
  pause_error :: "string \<Rightarrow> string option"
  resume_error :: "string \<Rightarrow> string option"
  paused :: "string set"

text \<open>
  The calls \<open>main\<close> makes on the outside world, one event per call in the order made:
  the connection attempt, the two listings, the selection (inside which the cache
  mount is probed), a pause or a resume of one torrent, and the save, load and removal
  of the state file.
\<close>

datatype event =
    EConnect string
  | EListSorted string
  | EListAll
  | EFilter
  | EPause string
  | EResume string
  | ESave string
  | ELoad string
  | ERemove string

text \<open>
  \<open>now_iso\<close> is \<open>datetime.now().isoformat()\<close>. \<open>clock d\<close> is the instant \<open>d\<close> calendar
  days before now, in epoch seconds. \<open>ts_lo\<close> and \<open>ts_hi\<close> are the least and the
  greatest timestamp that a \<open>datetime\<close> of this platform and time zone can hold, and
  \<open>range_error t\<close> is the exception \<open>datetime.fromtimestamp\<close> raises for a timestamp
  \<open>t\<close> outside them (a \<open>ValueError\<close>, an \<open>OverflowError\<close> or an \<open>OSError\<close>, by
  magnitude and platform).
\<close>

record world =
  fs :: filesystem
  client :: qbit
  now_iso :: string
  clock :: "int \<Rightarrow> real"
  ts_lo :: real
  ts_hi :: real
  range_error :: "int \<Rightarrow> error"
  trace :: "event list"

text \<open>
  \<open>(datetime.now() - timedelta(days=d)).timestamp()\<close>: the subtraction raises an
  \<open>OverflowError\<close> when the date leaves the range of \<open>datetime\<close>; otherwise the
  timestamp of the date, which lies in that range.
\<close>

definition days_ago :: "world \<Rightarrow> int \<Rightarrow> error + pyfloat" where
  "days_ago w d =
     (if ts_lo w \<le> clock w d \<and> clock w d \<le> ts_hi w then Inr (Finite (clock w d))
      else Inl (OverflowError ''date value out of range''))"

text \<open>
  \<open>datetime.fromtimestamp(torrent.added_on)\<close>, as far as it can fail: it raises for a
  timestamp outside the range of \<open>datetime\<close>.
\<close>

definition fromtimestamp_error :: "world \<Rightarrow> int \<Rightarrow> error option" where
  "fromtimestamp_error w t =
     (if ts_lo w \<le> of_int t \<and> of_int t \<le> ts_hi w then None else Some (range_error w t))"

definition emit :: "event \<Rightarrow> world \<Rightarrow> world" where
  "emit ev w = w\<lparr>trace := trace w @ [ev]\<rparr>"

definition torrent_pause :: "world \<Rightarrow> torrent \<Rightarrow> (error + unit) \<times> world" where
  "torrent_pause w t =
     (let w1 = emit (EPause (hash t)) w
      in case pause_error (client w) (hash t) of
           Some m \<Rightarrow> (Inl (ClientError m), w1)
         | None \<Rightarrow>
             (Inr (), w1\<lparr>client := (client w)\<lparr>paused := insert (hash t) (paused (client w))\<rparr>\<rparr>))"

definition torrent_resume :: "world \<Rightarrow> torrent \<Rightarrow> (error + unit) \<times> world" where
  "torrent_resume w t =
     (let w1 = emit (EResume (hash t)) w
      in case resume_error (client w) (hash t) of
           Some m \<Rightarrow> (Inl (ClientError m), w1)
         | None \<Rightarrow>
             (Inr (), w1\<lparr>client := (client w)\<lparr>paused := paused (client w) - {hash t}\<rparr>\<rparr>))"

text \<open>
  \<open>manage_torrents\<close>: for each torrent, in list order, the log line and then the call.
  The log line formats \<open>datetime.fromtimestamp(torrent.added_on)\<close>, which can raise
  before the call is made; what it prints is not modelled. An exception of the log
  line or of the call leaves the loop at once.
\<close>

fun manage_torrents :: "world \<Rightarrow> torrent list \<Rightarrow> bool \<Rightarrow> (error + unit) \<times> world" where
  "manage_torrents w [] pause = (Inr (), w)"
| "manage_torrents w (t # ts) pause =
     (case fromtimestamp_error w (added_on t) of
        Some e \<Rightarrow> (Inl e, w)
      | None \<Rightarrow>
          (case (if pause then torrent_pause w t else torrent_resume w t) of
             (Inl e, w') \<Rightarrow> (Inl e, w')
           | (Inr u, w') \<Rightarrow> manage_torrents w' ts pause))"

text \<open>\<open>saved_state['torrent_hashes']\<close>.\<close>

fun py_getitem :: "json \<Rightarrow> string \<Rightarrow> error + json" where
  "py_getitem (JObj kvs) k =
     (case map_of kvs k of None \<Rightarrow> Inl (KeyError k) | Some v \<Rightarrow> Inr v)"
| "py_getitem (JArr xs) k = Inl (TypeError ''list indices must be integers or slices, not str'')"
| "py_getitem (JStr s) k = Inl (TypeError ''string indices must be integers'')"
| "py_getitem JNull k = Inl (TypeError ''object of type 'NoneType' is not subscriptable'')"
| "py_getitem (JBool b) k = Inl (TypeError ''object of type 'bool' is not subscriptable'')"
| "py_getitem (JInt i) k = Inl (TypeError ''object of type 'int' is not subscriptable'')"
| "py_getitem (JReal r) k = Inl (TypeError ''object of type 'float' is not subscriptable'')"

text \<open>
  The list comprehension of the resume branch,
  \<open>[t for t in client.torrents.info() if t.hash in saved_state['torrent_hashes']]\<close>:
  the condition is evaluated once per torrent of the snapshot, so an empty snapshot
  never evaluates it.
\<close>

fun select_saved :: "json \<Rightarrow> torrent list \<Rightarrow> error + torrent list" where
  "select_saved state [] = Inr []"
| "select_saved state (t # ts) =
     (case py_getitem state ''torrent_hashes'' of
        Inl e \<Rightarrow> Inl e
      | Inr v \<Rightarrow>
          (case py_in (hash t) v of
             Inl e \<Rightarrow> Inl e
           | Inr b \<Rightarrow>
               (case select_saved state ts of
                  Inl e \<Rightarrow> Inl e
                | Inr r \<Rightarrow> Inr (if b then t # r else r))))"

text \<open>The body of \<open>if args.action == 'pause'\<close>.\<close>

definition pause_branch :: "world \<Rightarrow> args \<Rightarrow> (error + unit) \<times> world" where
  "pause_branch w a =
     (if days_from a > days_to a then
        (Inl (ValueError ''Config Error: days_from must be set lower than days_to''), w)
      else
        (let w1 = emit (EConnect (host a)) w
         in case connect (client w) (host a) (user a) (password a) of
              LoginFailed m \<Rightarrow>
                (Inl (RuntimeError
                   ''qBittorrent Error: Failed to login. Invalid username/password.''), w1)
            | APIConnectionError m \<Rightarrow>
                (Inl (RuntimeError ''qBittorrent Error: Unable to connect to the client.''), w1)
            | OtherException m \<Rightarrow>
                (Inl (RuntimeError
                   (''qBittorrent Error: Unable to connect to the client. '' @ m)), w1)
            | Connected \<Rightarrow>
                (case days_ago w (days_from a) of
                   Inl e \<Rightarrow> (Inl e, w1)
                 | Inr timeoffset_from \<Rightarrow>
                     (case days_ago w (days_to a) of
                        Inl e \<Rightarrow> (Inl e, w1)
                      | Inr timeoffset_to \<Rightarrow>
                          (let w2 = emit EFilter (emit (EListSorted (status_filter a)) w1);
                               torrent_list = info_sorted (client w) (status_filter a);
                               torrents = filter_torrents (fs w) torrent_list
                                            timeoffset_from timeoffset_to (cache_mount a)
                           in if torrents = [] then (Inr (), w2)
                              else
                                (case manage_torrents w2 torrents True of
                                   (Inl e, w3) \<Rightarrow> (Inl e, w3)
                                 | (Inr u, w3) \<Rightarrow>
                                     (case save_torrent_state (fs w3) (now_iso w3) torrents
                                             (state_file a) of
                                        (r, fsys) \<Rightarrow>
                                          (r, emit (ESave (state_file a)) (w3\<lparr>fs := fsys\<rparr>)))))))))"

text \<open>
  The body of \<open>if args.action == 'resume'\<close>. An \<open>OSError\<close> of \<open>os.remove\<close> is logged as a
  warning and the run goes on.
\<close>

definition resume_branch :: "world \<Rightarrow> args \<Rightarrow> (error + unit) \<times> world" where
  "resume_branch w a =
     (let w1 = emit (ELoad (state_file a)) w
      in case load_torrent_state (fs w) (state_file a) of
           Inl e \<Rightarrow> (Inl e, w1)
         | Inr saved_state \<Rightarrow>
             (let w2 = emit (EConnect (host a)) w1
              in case connect (client w) (host a) (user a) (password a) of
                   LoginFailed m \<Rightarrow>
                     (Inl (RuntimeError (''Failed to connect to qBittorrent: '' @ m)), w2)
                 | APIConnectionError m \<Rightarrow>
                     (Inl (RuntimeError (''Failed to connect to qBittorrent: '' @ m)), w2)
                 | OtherException m \<Rightarrow>
                     (Inl (RuntimeError (''Failed to connect to qBittorrent: '' @ m)), w2)
                 | Connected \<Rightarrow>
                     (let w3 = emit EListAll w2
                      in case select_saved saved_state (info_all (client w)) of
                           Inl e \<Rightarrow> (Inl e, w3)
                         | Inr torrents \<Rightarrow>
                             (case (if torrents = [] then (Inr (), w3)
                                    else manage_torrents w3 torrents False) of
                                (Inl e, w4) \<Rightarrow> (Inl e, w4)
                              | (Inr u, w4) \<Rightarrow>
                                  (let w5 = emit (ERemove (state_file a)) w4
                                   in case os_remove (fs w4) (state_file a) of
                                        Inl m \<Rightarrow> (Inr (), w5)
                                      | Inr fsys \<Rightarrow> (Inr (), w5\<lparr>fs := fsys\<rparr>))))))"

text \<open>The \<open>try\<close> block of \<open>main\<close>: validation first, then the branch of the action.\<close>

definition main_try :: "world \<Rightarrow> args \<Rightarrow> parser \<Rightarrow> (error + unit) \<times> world" where
  "main_try w a p =
     (case validate_args a p of
        Inl e \<Rightarrow> (Inl e, w)
      | Inr u \<Rightarrow> (case action a of Pause \<Rightarrow> pause_branch w a | Resume \<Rightarrow> resume_branch w a))"

text \<open>
  \<open>main\<close>: exit code 0 when the \<open>try\<close> block ends, 1 when any exception reaches the
  handler, together with the world the run leaves behind.
\<close>

definition main :: "world \<Rightarrow> cli \<Rightarrow> int \<times> world" where
  "main w c =
     (let parser = create_parser;
          a = parse_args parser c
      in case main_try w a parser of
           (Inl e, w') \<Rightarrow> (1, w')
         | (Inr u, w') \<Rightarrow> (0, w'))"

section \<open>Sample inputs\<close>

text \<open>Three torrents, added at seconds 100, 50 and 10.\<close>

definition t_new :: torrent where
  "t_new = \<lparr> hash = ''H1'', name = ''new'', content_path = ''/data/a'', added_on = 100 \<rparr>"

definition t_mid :: torrent where
  "t_mid = \<lparr> hash = ''H2'', name = ''mid'', content_path = ''/data/b'', added_on = 50 \<rparr>"

definition t_old :: torrent where
  "t_old = \<lparr> hash = ''H3'', name = ''old'', content_path = ''/data/c'', added_on = 10 \<rparr>"

text \<open>A fourth torrent, added at second 90.\<close>

definition t_extra :: torrent where
  "t_extra = \<lparr> hash = ''H4'', name = ''extra'', content_path = ''data/d'', added_on = 90 \<rparr>"

text \<open>
  A file system with no file at all, in which every directory is writable and every
  write succeeds.
\<close>

definition fs_empty :: filesystem where
  "fs_empty =
     \<lparr> files = (\<lambda>p. None), stat = (\<lambda>p. StatNotFound), access_w = (\<lambda>p. True),
       abspath = (\<lambda>p. ''/work/'' @ p), read_error = (\<lambda>p. None),
       write_result = (\<lambda>p. WriteOk), remove_error = (\<lambda>p. None) \<rparr>"

text \<open>The cache mount holds \<open>data/a\<close> and \<open>data/d\<close> only.\<close>

definition fs_cache :: filesystem where
  "fs_cache =
     fs_empty\<lparr>stat := (\<lambda>p. if p = ''/mnt/cache/data/a'' \<or> p = ''/mnt/cache/data/d''
                             then StatOk else StatNotFound)\<rparr>"

text \<open>The cache mount refuses the probe of \<open>data/a\<close> with a permission error.\<close>

definition fs_denied :: filesystem where
  "fs_denied =
     fs_empty\<lparr>stat := (\<lambda>p. if p = ''/mnt/cache/data/a''
                             then StatOSError ''[Errno 13] Permission denied''
                             else StatNotFound)\<rparr>"

text \<open>The working directory exists; nothing else does.\<close>

definition fs_work :: filesystem where
  "fs_work = fs_empty\<lparr>stat := (\<lambda>p. if p = ''/work'' then StatOk else StatNotFound)\<rparr>"

text \<open>
  The device \<open>/dev/null\<close>: its directory exists and is writable, what is written to it
  is dropped, and it reads as the empty text, which is not JSON.
\<close>

definition fs_devnull :: filesystem where
  "fs_devnull =
     fs_empty\<lparr>files := (\<lambda>p. if p = ''/dev/null'' then Some Unparseable else None),
              stat := (\<lambda>p. if p = ''/dev'' \<or> p = ''/dev/null'' then StatOk else StatNotFound),
              abspath := (\<lambda>p. p),
              write_result := (\<lambda>p. if p = ''/dev/null'' then WriteDiscarded else WriteOk)\<rparr>"

text \<open>
  A state file whose content is the JSON array \<open>["torrent_hashes", "timestamp"]\<close>.
\<close>

definition fs_array :: filesystem where
  "fs_array =
     fs_empty\<lparr>files := (\<lambda>p. if p = ''state.json''
                              then Some (Parses (JArr [JStr ''torrent_hashes'', JStr ''timestamp'']))
                              else None)\<rparr>"

text \<open>The state file that a pause of \<open>t_new\<close> and \<open>t_mid\<close> leaves behind.\<close>

definition fs_saved :: filesystem where
  "fs_saved =
     fs_empty\<lparr>files := (\<lambda>p. if p = ''./qbit_mover_state.json''
                              then Some (Parses (make_state ''2024-05-01T03:00:00'' [t_new, t_mid]))
                              else None)\<rparr>"

text \<open>
  A client that accepts every connection, lists the three torrents newest first, and
  fails to pause \<open>t_mid\<close>.
\<close>

definition qbit_pause :: qbit where
  "qbit_pause =
     \<lparr> connect = (\<lambda>h u p. Connected), info_sorted = (\<lambda>f. [t_new, t_mid, t_old]),
       info_all = [t_new, t_mid, t_old],
       pause_error = (\<lambda>h. if h = ''H2'' then Some ''Conflict'' else None),
       resume_error = (\<lambda>h. None), paused = {} \<rparr>"

text \<open>
  A client in which \<open>t_mid\<close> has been deleted since the pause: it lists \<open>t_new\<close> and
  \<open>t_old\<close> only.
\<close>

definition qbit_resume :: qbit where
  "qbit_resume =
     \<lparr> connect = (\<lambda>h u p. Connected), info_sorted = (\<lambda>f. [t_new, t_old]),
       info_all = [t_new, t_old],
       pause_error = (\<lambda>h. None), resume_error = (\<lambda>h. None), paused = {''H1''} \<rparr>"


text \<open>
  A clock at second 120, with days of 40 seconds to keep the numbers small, and dates
  that reach from second 0 to second 1000.
\<close>

definition sample_clock :: "int \<Rightarrow> real" where
  "sample_clock d = 120 - 40 * of_int d"

definition sample_range_error :: "int \<Rightarrow> error" where
  "sample_range_error t = ValueError ''year is out of range''"

definition world_pause :: world where
  "world_pause =
     \<lparr> fs = fs_work, client = qbit_pause, now_iso = ''2024-05-01T03:00:00'',
       clock = sample_clock, ts_lo = 0, ts_hi = 1000, range_error = sample_range_error,
       trace = [] \<rparr>"

definition world_resume :: world where
  "world_resume =
     \<lparr> fs = fs_saved, client = qbit_resume, now_iso = ''2024-05-01T04:00:00'',
       clock = sample_clock, ts_lo = 0, ts_hi = 1000, range_error = sample_range_error,
       trace = [] \<rparr>"


definition world_denied :: world where
  "world_denied =
     \<lparr> fs = fs_denied, client = qbit_pause, now_iso = ''2024-05-01T03:00:00'',
       clock = sample_clock, ts_lo = 0, ts_hi = 1000, range_error = sample_range_error,
       trace = [] \<rparr>"

text \<open>Command lines: a plain pause, a plain resume, and variations of them.\<close>

definition cli_pause :: cli where
  "cli_pause =
     \<lparr> cli_action = Pause, cli_host = ''localhost:8080'', cli_user = None,
       cli_password = None, cli_cache_mount = None, cli_days_from = None,
       cli_days_to = None, cli_status_filter = None, cli_state_file = None,
       cli_verbose = False \<rparr>"

definition cli_resume :: cli where
  "cli_resume = cli_pause\<lparr>cli_action := Resume\<rparr>"

definition cli_pause_inverted :: cli where
  "cli_pause_inverted = cli_pause\<lparr>cli_days_from := Some 5, cli_days_to := Some 2\<rparr>"

definition cli_pause_cache :: cli where
  "cli_pause_cache = cli_pause\<lparr>cli_cache_mount := Some ''/mnt/cache'', cli_days_to := Some 1\<rparr>"

definition cli_resume_default_days :: cli where
  "cli_resume_default_days = cli_resume\<lparr>cli_days_to := Some 2\<rparr>"

definition cli_resume_days :: cli where
  "cli_resume_days = cli_resume\<lparr>cli_days_to := Some 7\<rparr>"

section \<open>Properties of the selector\<close>

lemma in_window_not_older: "in_window tfrom tto t \<Longrightarrow> \<not> int_lt_float (added_on t) tto"
  by (cases tto) (auto simp: in_window_def)

lemma filter_torrents_scan:
  "filter_torrents fsys ts tfrom tto cm =
     filter (\<lambda>t. in_window tfrom tto t \<and> cache_ok fsys cm t)
       (takeWhile (\<lambda>t. \<not> int_lt_float (added_on t) tto) ts)"
  by (induction ts) (auto dest: in_window_not_older)

lemma older_mono:
  "int_lt_float a tto \<Longrightarrow> b \<le> a \<Longrightarrow> int_lt_float b tto"
  by (cases tto) auto

lemma sorted_desc_after_older:
  "sorted_desc ts \<Longrightarrow>
     filter (in_window tfrom tto) (dropWhile (\<lambda>t. \<not> int_lt_float (added_on t) tto) ts) = []"
proof (induction ts)
  case Nil
  then show ?case by simp
next
  case (Cons t ts)
  show ?case
  proof (cases "int_lt_float (added_on t) tto")
    case True
    have "\<forall>u \<in> set ts. int_lt_float (added_on u) tto"
      using Cons.prems True by (auto simp: sorted_desc_def intro: older_mono)
    then have "\<forall>u \<in> set (t # ts). \<not> in_window tfrom tto u"
      using True in_window_not_older by auto
    then have "filter (in_window tfrom tto) (t # ts) = []"
      by (simp only: filter_empty_conv)
    with True show ?thesis by simp
  next
    case False
    with Cons show ?thesis by (simp add: sorted_desc_def)
  qed
qed

lemma sorted_desc_window_prefix:
  assumes "sorted_desc ts"
  shows "filter (in_window tfrom tto) (takeWhile (\<lambda>t. \<not> int_lt_float (added_on t) tto) ts)
           = filter (in_window tfrom tto) ts"
proof -
  let ?p = "\<lambda>t. \<not> int_lt_float (added_on t) tto"
  have "filter (in_window tfrom tto) ts
          = filter (in_window tfrom tto) (takeWhile ?p ts @ dropWhile ?p ts)"
    by simp
  also have "\<dots> = filter (in_window tfrom tto) (takeWhile ?p ts)"
    using sorted_desc_after_older [OF assms, of tfrom tto] by (simp only: filter_append) simp
  finally show ?thesis by simp
qed

lemma filter_torrents_cache_split:
  "filter_torrents fsys ts tfrom tto cm =
     filter (cache_ok fsys cm) (filter_torrents fsys ts tfrom tto None)"
  by (simp add: filter_torrents_scan cache_ok_def conj_commute)

lemma subseq_takeWhile: "subseq (takeWhile P ts) ts"
  by (induction ts) auto

lemma filter_torrents_subseq_input: "subseq (filter_torrents fsys ts tfrom tto cm) ts"
proof -
  let ?scanned = "takeWhile (\<lambda>t. \<not> int_lt_float (added_on t) tto) ts"
  have "subseq (filter (\<lambda>t. in_window tfrom tto t \<and> cache_ok fsys cm t) ?scanned) ?scanned"
    by (rule subseq_filter_left)
  also have "subseq ?scanned ts"
    by (rule subseq_takeWhile)
  finally show ?thesis
    by (simp add: filter_torrents_scan)
qed

lemma filter_torrents_subseq_eligible:
  "subseq (filter_torrents fsys ts tfrom tto cm)
     (filter (\<lambda>t. in_window tfrom tto t \<and> cache_ok fsys cm t) ts)"
  unfolding filter_torrents_scan by (rule subseq_filter) (rule subseq_takeWhile)

subsection \<open>The sample inputs, evaluated\<close>

lemma added_on_samples:
  "added_on t_new = 100" "added_on t_mid = 50" "added_on t_old = 10" "added_on t_extra = 90"
  by (simp_all add: t_new_def t_mid_def t_old_def t_extra_def)

lemma hash_samples:
  "hash t_new = ''H1''" "hash t_mid = ''H2''" "hash t_old = ''H3''"
  by (simp_all add: t_new_def t_mid_def t_old_def)

lemma window_samples:
  "in_window (Finite 120) (Finite 40) t_new"
  "in_window (Finite 120) (Finite 40) t_mid"
  "\<not> in_window (Finite 120) (Finite 40) t_old"
  "in_window (Finite 120) (Finite 40) t_extra"
  by (simp_all add: in_window_def added_on_samples)

lemma probe_samples:
  "os_path_join ''/mnt/cache'' (lstrip_slash (content_path t_new)) = ''/mnt/cache/data/a''"
  "os_path_join ''/mnt/cache'' (lstrip_slash (content_path t_mid)) = ''/mnt/cache/data/b''"
  "os_path_join [] (lstrip_slash (content_path t_new)) = ''data/a''"
  "os_path_join ''/mnt/cache'' (lstrip_slash (content_path t_extra)) = ''/mnt/cache/data/d''"
  by (simp_all add: os_path_join_def lstrip_slash_def t_new_def t_mid_def t_extra_def)

lemma cache_samples:
  "cache_ok fs_cache (Some ''/mnt/cache'') t_new"
  "\<not> cache_ok fs_cache (Some ''/mnt/cache'') t_mid"
  "cache_ok fs_cache (Some ''/mnt/cache'') t_extra"
  by (simp_all add: cache_ok_def exists_in_cache_def probe_samples os_path_exists_def
      fs_cache_def)

section \<open>The claims about the selector\<close>

text \<open>
  C1. On a list sorted newest first, and with no cache filter, \<open>filter_torrents\<close>
  returns exactly the torrents whose \<open>added_on\<close> lies in the window, in their original
  order, the empty list for the empty list. No returned torrent is older than the
  window, and every torrent of the window that stands before the first older torrent
  is returned.
\<close>

theorem filter_torrents_sorted_exact:
  assumes "sorted_desc ts" and "float_le tto tfrom"
  shows "filter_torrents fsys ts tfrom tto None = filter (in_window tfrom tto) ts
       \<and> filter_torrents fsys [] tfrom tto None = []
       \<and> (\<forall>t \<in> set (filter_torrents fsys ts tfrom tto None).
             \<not> int_lt_float (added_on t) tto)
       \<and> (\<forall>t \<in> set (takeWhile (\<lambda>t. \<not> int_lt_float (added_on t) tto) ts).
             in_window tfrom tto t \<longrightarrow> t \<in> set (filter_torrents fsys ts tfrom tto None))"
proof -
  have scan: "filter_torrents fsys ts tfrom tto None =
      filter (in_window tfrom tto) (takeWhile (\<lambda>t. \<not> int_lt_float (added_on t) tto) ts)"
    by (simp add: filter_torrents_scan cache_ok_def)
  have exact: "filter_torrents fsys ts tfrom tto None = filter (in_window tfrom tto) ts"
    using scan sorted_desc_window_prefix [OF assms(1)] by simp
  have older: "\<forall>t \<in> set (filter_torrents fsys ts tfrom tto None).
      \<not> int_lt_float (added_on t) tto"
    using in_window_not_older by (auto simp: exact)
  have before: "\<forall>t \<in> set (takeWhile (\<lambda>t. \<not> int_lt_float (added_on t) tto) ts).
      in_window tfrom tto t \<longrightarrow> t \<in> set (filter_torrents fsys ts tfrom tto None)"
    by (simp add: scan)
  from exact older before show ?thesis by simp
qed

theorem filter_torrents_sorted_exact_witness:
  "sorted_desc [t_new, t_mid, t_old] \<and> float_le (Finite 40) (Finite 120)
   \<and> filter_torrents fs_empty [t_new, t_mid, t_old] (Finite 120) (Finite 40) None
       = [t_new, t_mid]"
proof -
  have s: "sorted_desc [t_new, t_mid, t_old]"
    by (simp add: sorted_desc_def added_on_samples)
  have w: "float_le (Finite 40) (Finite 120)"
    by simp
  have f: "filter (in_window (Finite 120) (Finite 40)) [t_new, t_mid, t_old] = [t_new, t_mid]"
    by (simp add: window_samples)
  have "filter_torrents fs_empty [t_new, t_mid, t_old] (Finite 120) (Finite 40) None
          = filter (in_window (Finite 120) (Finite 40)) [t_new, t_mid, t_old]"
    using filter_torrents_sorted_exact [OF s w, of fs_empty] by (rule conjunct1)
  with s w f show ?thesis by (simp only: simp_thms)
qed

text \<open>
  C10. Whatever the order of the input, the output of \<open>filter_torrents\<close> is a
  subsequence of the input; every torrent in it lies in the window and, when a cache
  filter is set (a non-empty \<open>cache_mount\<close>, the case in which the source runs the
  test), exists under the cache mount; and the output is a subsequence of the list of
  all eligible torrents of the input, so an unsorted input can only lose eligible
  torrents.
\<close>

theorem filter_torrents_sound_any_order:
  "subseq (filter_torrents fsys ts tfrom tto cm) ts
   \<and> (\<forall>t \<in> set (filter_torrents fsys ts tfrom tto cm).
         in_window tfrom tto t
         \<and> (\<forall>m. cm = Some m \<and> m \<noteq> [] \<longrightarrow> exists_in_cache fsys m (content_path t)))
   \<and> subseq (filter_torrents fsys ts tfrom tto cm)
        (filter (\<lambda>t. in_window tfrom tto t \<and> cache_ok fsys cm t) ts)"
proof -
  have "\<forall>t \<in> set (filter_torrents fsys ts tfrom tto cm).
          in_window tfrom tto t
          \<and> (\<forall>m. cm = Some m \<and> m \<noteq> [] \<longrightarrow> exists_in_cache fsys m (content_path t))"
    by (auto simp: filter_torrents_scan cache_ok_def)
  then show ?thesis
    using filter_torrents_subseq_input filter_torrents_subseq_eligible by blast
qed

theorem filter_torrents_sound_any_order_witness:
  "filter_torrents fs_cache [t_extra, t_old, t_new] (Finite 120) (Finite 40)
     (Some ''/mnt/cache'') = [t_extra]
   \<and> subseq [t_extra] [t_extra, t_old, t_new]
   \<and> in_window (Finite 120) (Finite 40) t_extra
   \<and> exists_in_cache fs_cache ''/mnt/cache'' (content_path t_extra)
   \<and> filter (\<lambda>t. in_window (Finite 120) (Finite 40) t
                 \<and> cache_ok fs_cache (Some ''/mnt/cache'') t) [t_extra, t_old, t_new]
       = [t_extra, t_new]"
proof -
  have r: "filter_torrents fs_cache [t_extra, t_old, t_new] (Finite 120) (Finite 40)
             (Some ''/mnt/cache'') = [t_extra]"
    by (simp add: window_samples cache_samples added_on_samples)
  have e: "filter (\<lambda>t. in_window (Finite 120) (Finite 40) t
                 \<and> cache_ok fs_cache (Some ''/mnt/cache'') t) [t_extra, t_old, t_new]
             = [t_extra, t_new]"
    by (simp add: window_samples cache_samples)
  note f = filter_torrents_sound_any_order
         [of fs_cache "[t_extra, t_old, t_new]" "Finite 120" "Finite 40" "Some ''/mnt/cache''",
          unfolded r]
  have s: "subseq [t_extra] [t_extra, t_old, t_new]"
    using f by (rule conjunct1)
  have "\<forall>t \<in> set [t_extra]. in_window (Finite 120) (Finite 40) t
         \<and> (\<forall>m. Some ''/mnt/cache'' = Some m \<and> m \<noteq> []
               \<longrightarrow> exists_in_cache fs_cache m (content_path t))"
    using f by (rule conjunct2 [THEN conjunct1])
  then have x: "exists_in_cache fs_cache ''/mnt/cache'' (content_path t_extra)"
    by simp
  from r e s x window_samples(4) show ?thesis
    by (simp only: simp_thms)
qed

text \<open>
  C5, as the code has it. On a list sorted newest first the cache filter is a pure
  conjunct of the time-window predicate: with \<open>None\<close> the result is every torrent of the
  window, and with any \<open>cache_mount\<close> it is every torrent of the window that passes the
  cache guard. For every list, sorted or not, the result with a \<open>cache_mount\<close> is the
  result with \<open>None\<close> filtered by the cache guard, hence a subsequence of it, so that
  enabling the filter adds nothing; and a \<open>cache_mount\<close> that enables the filter (a
  non-empty string, the case in which the source runs the test) under which the
  content path of a torrent does not exist excludes that torrent.
\<close>

theorem cache_filter_conjunct_on_sorted:
  "(sorted_desc ts \<longrightarrow>
      filter_torrents fsys ts tfrom tto None = filter (in_window tfrom tto) ts
      \<and> (\<forall>u \<in> set ts. in_window tfrom tto u
            \<longrightarrow> u \<in> set (filter_torrents fsys ts tfrom tto None))
      \<and> filter_torrents fsys ts tfrom tto cm
          = filter (\<lambda>u. in_window tfrom tto u \<and> cache_ok fsys cm u) ts)
   \<and> filter_torrents fsys ts tfrom tto cm
       = filter (cache_ok fsys cm) (filter_torrents fsys ts tfrom tto None)
   \<and> subseq (filter_torrents fsys ts tfrom tto cm) (filter_torrents fsys ts tfrom tto None)
   \<and> (m \<noteq> [] \<and> \<not> exists_in_cache fsys m (content_path t)
        \<longrightarrow> t \<notin> set (filter_torrents fsys ts tfrom tto (Some m)))"
proof -
  have split: "filter_torrents fsys ts tfrom tto cm
      = filter (cache_ok fsys cm) (filter_torrents fsys ts tfrom tto None)"
    by (rule filter_torrents_cache_split)
  have scan: "filter_torrents fsys ts tfrom tto None
      = filter (in_window tfrom tto) (takeWhile (\<lambda>t. \<not> int_lt_float (added_on t) tto) ts)"
    by (simp add: filter_torrents_scan cache_ok_def)
  have sorted: "sorted_desc ts \<longrightarrow>
      filter_torrents fsys ts tfrom tto None = filter (in_window tfrom tto) ts
      \<and> (\<forall>u \<in> set ts. in_window tfrom tto u
            \<longrightarrow> u \<in> set (filter_torrents fsys ts tfrom tto None))
      \<and> filter_torrents fsys ts tfrom tto cm
          = filter (\<lambda>u. in_window tfrom tto u \<and> cache_ok fsys cm u) ts"
  proof
    assume s: "sorted_desc ts"
    have n: "filter_torrents fsys ts tfrom tto None = filter (in_window tfrom tto) ts"
      using scan sorted_desc_window_prefix [OF s] by simp
    have a: "\<forall>u \<in> set ts. in_window tfrom tto u
        \<longrightarrow> u \<in> set (filter_torrents fsys ts tfrom tto None)"
      by (simp add: n)
    have "filter_torrents fsys ts tfrom tto cm
        = filter (cache_ok fsys cm) (filter (in_window tfrom tto) ts)"
      using split n by simp
    then have c: "filter_torrents fsys ts tfrom tto cm
        = filter (\<lambda>u. in_window tfrom tto u \<and> cache_ok fsys cm u) ts"
      by (simp add: conj_commute)
    from n a c show "filter_torrents fsys ts tfrom tto None = filter (in_window tfrom tto) ts
      \<and> (\<forall>u \<in> set ts. in_window tfrom tto u
            \<longrightarrow> u \<in> set (filter_torrents fsys ts tfrom tto None))
      \<and> filter_torrents fsys ts tfrom tto cm
          = filter (\<lambda>u. in_window tfrom tto u \<and> cache_ok fsys cm u) ts"
      by (simp only: simp_thms)
  qed
  have sub: "subseq (filter_torrents fsys ts tfrom tto cm)
      (filter_torrents fsys ts tfrom tto None)"
    by (subst split) (rule subseq_filter_left)
  have excl: "m \<noteq> [] \<and> \<not> exists_in_cache fsys m (content_path t)
      \<longrightarrow> t \<notin> set (filter_torrents fsys ts tfrom tto (Some m))"
    by (auto simp: filter_torrents_scan cache_ok_def)
  from sorted split sub excl show ?thesis
    by (intro conjI)
qed

theorem cache_filter_conjunct_on_sorted_witness:
  "sorted_desc [t_new, t_mid, t_old]
   \<and> filter_torrents fs_cache [t_new, t_mid, t_old] (Finite 120) (Finite 40) None
       = [t_new, t_mid]
   \<and> filter_torrents fs_cache [t_new, t_mid, t_old] (Finite 120) (Finite 40)
       (Some ''/mnt/cache'') = [t_new]
   \<and> \<not> exists_in_cache fs_cache ''/mnt/cache'' (content_path t_mid)
   \<and> t_mid \<notin> set (filter_torrents fs_cache [t_new, t_mid, t_old] (Finite 120) (Finite 40)
                     (Some ''/mnt/cache''))"
proof -
  note f = cache_filter_conjunct_on_sorted
             [of "[t_new, t_mid, t_old]" fs_cache "Finite 120" "Finite 40"
                 "Some ''/mnt/cache''" "''/mnt/cache''" t_mid]
  have s: "sorted_desc [t_new, t_mid, t_old]"
    by (simp add: sorted_desc_def added_on_samples)
  have w: "filter (in_window (Finite 120) (Finite 40)) [t_new, t_mid, t_old] = [t_new, t_mid]"
    by (simp add: window_samples)
  have e: "filter (\<lambda>u. in_window (Finite 120) (Finite 40) u
                 \<and> cache_ok fs_cache (Some ''/mnt/cache'') u) [t_new, t_mid, t_old] = [t_new]"
    by (simp add: window_samples cache_samples)
  have n: "\<not> exists_in_cache fs_cache ''/mnt/cache'' (content_path t_mid)"
    by (simp add: exists_in_cache_def probe_samples os_path_exists_def fs_cache_def)
  have m: "''/mnt/cache'' \<noteq> []"
    by simp
  note g = f [THEN conjunct1, THEN mp, OF s]
  have r1: "filter_torrents fs_cache [t_new, t_mid, t_old] (Finite 120) (Finite 40) None
      = [t_new, t_mid]"
    using g [THEN conjunct1] w by (rule trans)
  have r2: "filter_torrents fs_cache [t_new, t_mid, t_old] (Finite 120) (Finite 40)
      (Some ''/mnt/cache'') = [t_new]"
    using g [THEN conjunct2, THEN conjunct2] e by (rule trans)
  have r3: "t_mid \<notin> set (filter_torrents fs_cache [t_new, t_mid, t_old] (Finite 120)
      (Finite 40) (Some ''/mnt/cache''))"
    using f [THEN conjunct2, THEN conjunct2, THEN conjunct2] m n by blast
  from s r1 r2 n r3 show ?thesis
    by (simp only: simp_thms)
qed

text \<open>
  C5, as stated for every torrent list, fails on a list that is not sorted: \<open>t_new\<close>
  lies in the window and stands in the list, yet the run with \<open>cache_mount = None\<close>
  leaves it out, the loop having ended at the older \<open>t_old\<close> before it.
\<close>

theorem cache_filter_unsorted_counterexample:
  "\<not> sorted_desc [t_old, t_new]
   \<and> in_window (Finite 120) (Finite 40) t_new
   \<and> t_new \<in> set [t_old, t_new]
   \<and> t_new \<notin> set (filter_torrents fs_empty [t_old, t_new] (Finite 120) (Finite 40) None)"
proof -
  have "\<not> sorted_desc [t_old, t_new]"
    by (simp add: sorted_desc_def added_on_samples)
  moreover have "filter_torrents fs_empty [t_old, t_new] (Finite 120) (Finite 40) None = []"
    by (simp add: window_samples added_on_samples)
  ultimately show ?thesis
    using window_samples(1) by simp
qed

text \<open>The empty string is no filter: it gives the result of \<open>None\<close>.\<close>

lemma empty_mount_is_no_filter:
  "filter_torrents fsys ts tfrom tto (Some []) = filter_torrents fsys ts tfrom tto None"
  by (simp add: filter_torrents_scan cache_ok_def)

text \<open>
  C6, as the code has it. \<open>os.path.exists\<close> answers \<open>False\<close> on every error of the
  probe, so a torrent whose probe fails with an error other than "not found" is
  treated as not cached: it is left out of the result, and the selection returns its
  list as usual.
\<close>

theorem probe_error_means_not_cached:
  assumes "stat fsys (os_path_join m (lstrip_slash (content_path t))) = StatOSError e"
    and "m \<noteq> []"
  shows "\<not> exists_in_cache fsys m (content_path t)
       \<and> t \<notin> set (filter_torrents fsys ts tfrom tto (Some m))
       \<and> filter_torrents fsys (t # ts) tfrom tto (Some m)
           = (if \<not> in_window tfrom tto t \<and> int_lt_float (added_on t) tto then []
              else filter_torrents fsys ts tfrom tto (Some m))"
proof -
  have n: "\<not> exists_in_cache fsys m (content_path t)"
    using assms(1) by (simp add: exists_in_cache_def os_path_exists_def)
  then have c: "\<not> cache_ok fsys (Some m) t"
    using assms(2) by (simp add: cache_ok_def)
  have "t \<notin> set (filter_torrents fsys ts tfrom tto (Some m))"
    using c by (simp add: filter_torrents_scan)
  moreover have "filter_torrents fsys (t # ts) tfrom tto (Some m)
      = (if \<not> in_window tfrom tto t \<and> int_lt_float (added_on t) tto then []
         else filter_torrents fsys ts tfrom tto (Some m))"
    using c by simp
  ultimately show ?thesis using n by blast
qed

theorem probe_error_means_not_cached_witness:
  "stat fs_denied (os_path_join ''/mnt/cache'' (lstrip_slash (content_path t_new)))
     = StatOSError ''[Errno 13] Permission denied''
   \<and> in_window (Finite 120) (Finite 40) t_new
   \<and> \<not> exists_in_cache fs_denied ''/mnt/cache'' (content_path t_new)
   \<and> filter_torrents fs_denied (t_new # [t_mid, t_old]) (Finite 120) (Finite 40)
       (Some ''/mnt/cache'')
       = filter_torrents fs_denied [t_mid, t_old] (Finite 120) (Finite 40)
           (Some ''/mnt/cache'')"
proof -
  have s: "stat fs_denied (os_path_join ''/mnt/cache'' (lstrip_slash (content_path t_new)))
             = StatOSError ''[Errno 13] Permission denied''"
    by (simp add: probe_samples fs_denied_def)
  have m: "''/mnt/cache'' \<noteq> []"
    by simp
  note f = probe_error_means_not_cached [OF s m, of "[t_mid, t_old]" "Finite 120" "Finite 40"]
  have n: "\<not> exists_in_cache fs_denied ''/mnt/cache'' (content_path t_new)"
    using f by (rule conjunct1)
  have "filter_torrents fs_denied (t_new # [t_mid, t_old]) (Finite 120) (Finite 40)
       (Some ''/mnt/cache'')
       = (if \<not> in_window (Finite 120) (Finite 40) t_new
             \<and> int_lt_float (added_on t_new) (Finite 40) then []
          else filter_torrents fs_denied [t_mid, t_old] (Finite 120) (Finite 40)
                 (Some ''/mnt/cache''))"
    using f by (rule conjunct2 [THEN conjunct2])
  then have e: "filter_torrents fs_denied (t_new # [t_mid, t_old]) (Finite 120) (Finite 40)
       (Some ''/mnt/cache'')
       = filter_torrents fs_denied [t_mid, t_old] (Finite 120) (Finite 40)
           (Some ''/mnt/cache'')"
    by (simp only: window_samples(1) simp_thms if_False)
  from s window_samples(1) n e show ?thesis
    by (simp only: simp_thms)
qed

section \<open>The claims about the state store\<close>

text \<open>
  \<open>save_torrent_state\<close> succeeds exactly when the directory of the path exists and is
  writable and the dump completes, whether the path keeps the text or drops it.
\<close>

lemma save_succeeds_iff:
  "fst (save_torrent_state fsys now torrents path) = Inr () \<longleftrightarrow>
     os_path_exists fsys (os_path_dirname (abspath fsys path))
     \<and> access_w fsys (os_path_dirname (abspath fsys path))
     \<and> (write_result fsys path = WriteOk \<or> write_result fsys path = WriteDiscarded)"
  by (auto simp: save_torrent_state_def Let_def split: write_outcome.splits)

lemma save_kept:
  assumes "os_path_exists fsys (os_path_dirname (abspath fsys path))"
    and "access_w fsys (os_path_dirname (abspath fsys path))"
    and "write_result fsys path = WriteOk"
  shows "save_torrent_state fsys now torrents path =
           (Inr (), fsys\<lparr>files := (files fsys)(path \<mapsto> Parses (make_state now torrents))\<rparr>)"
  using assms by (simp add: save_torrent_state_def Let_def)

lemma has_required_keys_make_state: "has_required_keys (make_state now torrents) = Inr True"
  by (simp add: has_required_keys_def make_state_def)

lemma py_in_hash_list:
  "py_in h (JArr (map (\<lambda>t. JStr (hash t)) torrents)) = Inr (h \<in> hash ` set torrents)"
  by (auto simp: image_iff)

text \<open>
  C3, as the code has it. Where the save succeeds on a path that keeps what is written
  (the directory exists and is writable, \<open>open\<close> and the dump succeed and the text
  stays in the file) and the file can then be opened for reading, the save returns
  without error and \<open>load_torrent_state\<close> on the same path returns the state saved; its
  field \<open>torrent_hashes\<close> is the list of the hashes of the saved torrents, in which an
  identifier is found exactly when it is the hash of a saved torrent.
\<close>

theorem save_load_round_trip_kept_file:
  assumes "os_path_exists fsys (os_path_dirname (abspath fsys path))"
    and "access_w fsys (os_path_dirname (abspath fsys path))"
    and "write_result fsys path = WriteOk"
    and "read_error fsys path = None"
  shows "fst (save_torrent_state fsys now torrents path) = Inr ()
       \<and> load_torrent_state (snd (save_torrent_state fsys now torrents path)) path
           = Inr (make_state now torrents)
       \<and> py_getitem (make_state now torrents) ''torrent_hashes''
           = Inr (JArr (map (\<lambda>t. JStr (hash t)) torrents))
       \<and> (\<forall>h. py_in h (JArr (map (\<lambda>t. JStr (hash t)) torrents))
                = Inr (h \<in> hash ` set torrents))"
proof -
  have saved: "save_torrent_state fsys now torrents path =
      (Inr (), fsys\<lparr>files := (files fsys)(path \<mapsto> Parses (make_state now torrents))\<rparr>)"
    by (rule save_kept [OF assms(1,2,3)])
  have ok: "fst (save_torrent_state fsys now torrents path) = Inr ()"
    by (simp add: saved)
  have "load_torrent_state (snd (save_torrent_state fsys now torrents path)) path
      = Inr (make_state now torrents)"
    using assms(4) by (simp add: saved load_torrent_state_def has_required_keys_make_state)
  moreover have "py_getitem (make_state now torrents) ''torrent_hashes''
      = Inr (JArr (map (\<lambda>t. JStr (hash t)) torrents))"
    by (simp add: make_state_def)
  ultimately show ?thesis
    using ok py_in_hash_list by blast
qed

lemma dirname_samples:
  "os_path_dirname ''/work/state.json'' = ''/work''"
  "os_path_dirname ''/dev/null'' = ''/dev''"
  by (simp_all add: os_path_dirname_def)

lemma fs_work_fields:
  "abspath fs_work ''state.json'' = ''/work/state.json''"
  "os_path_exists fs_work ''/work''"
  "access_w fs_work p"
  "write_result fs_work p = WriteOk"
  "read_error fs_work p = None"
  by (simp_all add: os_path_exists_def fs_work_def fs_empty_def)

theorem save_load_round_trip_kept_file_witness:
  "fst (save_torrent_state fs_work ''2024-05-01T03:00:00'' [t_new, t_mid] ''state.json'')
     = Inr ()
   \<and> load_torrent_state
       (snd (save_torrent_state fs_work ''2024-05-01T03:00:00'' [t_new, t_mid] ''state.json''))
       ''state.json''
       = Inr (make_state ''2024-05-01T03:00:00'' [t_new, t_mid])
   \<and> py_getitem (make_state ''2024-05-01T03:00:00'' [t_new, t_mid]) ''torrent_hashes''
       = Inr (JArr [JStr ''H1'', JStr ''H2''])
   \<and> py_in ''H2'' (JArr [JStr ''H1'', JStr ''H2'']) = Inr True
   \<and> py_in ''H3'' (JArr [JStr ''H1'', JStr ''H2'']) = Inr False"
proof -
  have e: "os_path_exists fs_work (os_path_dirname (abspath fs_work ''state.json''))"
    by (simp add: fs_work_fields dirname_samples)
  have a: "access_w fs_work (os_path_dirname (abspath fs_work ''state.json''))"
    by (rule fs_work_fields)
  note f = save_load_round_trip_kept_file
             [OF e a fs_work_fields(4) fs_work_fields(5),
              of "''2024-05-01T03:00:00''" "[t_new, t_mid]"]
  have l: "map (\<lambda>t. JStr (hash t)) [t_new, t_mid] = [JStr ''H1'', JStr ''H2'']"
    by (simp add: hash_samples)
  have i2: "py_in ''H2'' (JArr [JStr ''H1'', JStr ''H2'']) = Inr True"
    by simp
  have i3: "py_in ''H3'' (JArr [JStr ''H1'', JStr ''H2'']) = Inr False"
    by simp
  from f l i2 i3 show ?thesis
    by (simp only: simp_thms)
qed

text \<open>
  C3, as stated for every path where the save succeeds, fails on \<open>/dev/null\<close>: the save
  succeeds, nothing is kept, and the load of the same path finds the empty text and
  raises the error of a corrupted state file.
\<close>

lemma fs_devnull_fields:
  "abspath fs_devnull p = p"
  "os_path_exists fs_devnull ''/dev''"
  "access_w fs_devnull p"
  "write_result fs_devnull ''/dev/null'' = WriteDiscarded"
  "read_error fs_devnull p = None"
  "files fs_devnull ''/dev/null'' = Some Unparseable"
  by (simp_all add: os_path_exists_def fs_devnull_def fs_empty_def)

theorem save_load_dev_null_counterexample:
  "fst (save_torrent_state fs_devnull ''2024-05-01T03:00:00'' [t_new, t_mid] ''/dev/null'')
     = Inr ()
   \<and> load_torrent_state
       (snd (save_torrent_state fs_devnull ''2024-05-01T03:00:00'' [t_new, t_mid] ''/dev/null''))
       ''/dev/null''
       = Inl (RuntimeError ''State file /dev/null is corrupted'')"
proof -
  have s: "save_torrent_state fs_devnull ''2024-05-01T03:00:00'' [t_new, t_mid] ''/dev/null''
      = (Inr (), fs_devnull)"
    by (simp add: save_torrent_state_def fs_devnull_fields dirname_samples)
  have "load_torrent_state fs_devnull ''/dev/null''
      = Inl (RuntimeError ''State file /dev/null is corrupted'')"
    by (simp add: load_torrent_state_def fs_devnull_fields)
  with s show ?thesis
    by simp
qed

text \<open>
  C4, at the input where the code departs from it. The state file holds the JSON array
  \<open>["torrent_hashes", "timestamp"]\<close>: valid JSON with no field at all. The membership
  test of the validation finds both names among the elements of the array, and
  \<open>load_torrent_state\<close> returns the array as the state; reading the field from it then
  raises a \<open>TypeError\<close>.
\<close>

theorem load_accepts_array_of_key_names:
  "load_torrent_state fs_array ''state.json''
     = Inr (JArr [JStr ''torrent_hashes'', JStr ''timestamp''])
   \<and> py_getitem (JArr [JStr ''torrent_hashes'', JStr ''timestamp'']) ''torrent_hashes''
       = Inl (TypeError ''list indices must be integers or slices, not str'')"
  by (simp add: load_torrent_state_def has_required_keys_def fs_array_def fs_empty_def)

text \<open>
  What holds of the claim: on a missing file, on text that is not JSON and on a JSON
  object that lacks a required key, \<open>load_torrent_state\<close> fails, with three different
  errors, and a JSON object it returns has both keys.
\<close>

lemma load_missing_file:
  "read_error fsys path = None \<Longrightarrow> files fsys path = None \<Longrightarrow>
   load_torrent_state fsys path
     = Inl (RuntimeError (''No state file found at '' @ path @
                          ''. Did you run with 'pause' first?''))"
  by (simp add: load_torrent_state_def)

lemma load_malformed:
  "read_error fsys path = None \<Longrightarrow> files fsys path = Some Unparseable \<Longrightarrow>
   load_torrent_state fsys path = Inl (RuntimeError (''State file '' @ path @ '' is corrupted''))"
  by (simp add: load_torrent_state_def)

lemma load_object_missing_key:
  "read_error fsys path = None \<Longrightarrow> files fsys path = Some (Parses (JObj kvs)) \<Longrightarrow>
   ''torrent_hashes'' \<notin> fst ` set kvs \<or> ''timestamp'' \<notin> fst ` set kvs \<Longrightarrow>
   load_torrent_state fsys path = Inl (ValueError ''State file is missing required fields'')"
  by (auto simp: load_torrent_state_def has_required_keys_def)

lemma load_object_has_keys:
  "load_torrent_state fsys path = Inr (JObj kvs) \<Longrightarrow>
   ''torrent_hashes'' \<in> fst ` set kvs \<and> ''timestamp'' \<in> fst ` set kvs"
  by (auto simp: load_torrent_state_def has_required_keys_def
      split: option.splits content.splits sum.splits bool.splits if_splits)

lemma load_errors_distinct:
  "RuntimeError (''No state file found at '' @ path @ ''. Did you run with 'pause' first?'')
     \<noteq> RuntimeError (''State file '' @ path @ '' is corrupted'')"
  "RuntimeError (''No state file found at '' @ path @ ''. Did you run with 'pause' first?'')
     \<noteq> ValueError ''State file is missing required fields''"
  "RuntimeError (''State file '' @ path @ '' is corrupted'')
     \<noteq> ValueError ''State file is missing required fields''"
  by simp_all

section \<open>The claims about validation and the two phases\<close>

lemma parse_args_action: "action (parse_args p c) = cli_action c"
  by (simp add: parse_args_def)

lemma validate_args_pause: "action a = Pause \<Longrightarrow> validate_args a p = Inr ()"
  by (simp add: validate_args_def)


text \<open>
  What the validation does achieve: when the action is \<open>resume\<close> and a pause-only
  parameter has a value other than its default, \<open>validate_args\<close> raises a \<open>ValueError\<close>
  whose message lists exactly the parameters that differ, and \<open>main\<close> ends with exit
  code 1 and has made no call on the client or the file system.
\<close>

lemma resume_rejects_changed_pause_params:
  assumes "cli_action c = Resume"
    and "cli_cache_mount c \<noteq> None
         \<or> (\<exists>v. cli_days_from c = Some v \<and> v \<noteq> 0)
         \<or> (\<exists>v. cli_days_to c = Some v \<and> v \<noteq> 2)
         \<or> (\<exists>v. cli_status_filter c = Some v \<and> v \<noteq> ''completed'')"
  shows "validate_args (parse_args create_parser c) create_parser
           = Inl (ValueError
               (''The following parameters are not valid with 'resume' action: '' @
                str_join '', '' (provided_params (parse_args create_parser c) create_parser)))
       \<and> provided_params (parse_args create_parser c) create_parser \<noteq> []
       \<and> (''cache_mount'' \<in> set (provided_params (parse_args create_parser c) create_parser)
            \<longleftrightarrow> cli_cache_mount c \<noteq> None)
       \<and> (''days_from'' \<in> set (provided_params (parse_args create_parser c) create_parser)
            \<longleftrightarrow> (\<exists>v. cli_days_from c = Some v \<and> v \<noteq> 0))
       \<and> (''days_to'' \<in> set (provided_params (parse_args create_parser c) create_parser)
            \<longleftrightarrow> (\<exists>v. cli_days_to c = Some v \<and> v \<noteq> 2))
       \<and> (''status_filter'' \<in> set (provided_params (parse_args create_parser c) create_parser)
            \<longleftrightarrow> (\<exists>v. cli_status_filter c = Some v \<and> v \<noteq> ''completed''))
       \<and> main w c = (1, w)"
proof -
  let ?a = "parse_args create_parser c"
  let ?pp = "provided_params ?a create_parser"
  have m1: "''cache_mount'' \<in> set ?pp \<longleftrightarrow> cli_cache_mount c \<noteq> None"
    by (simp add: provided_params_def parse_args_def create_parser_def split: option.splits)
  have m2: "''days_from'' \<in> set ?pp \<longleftrightarrow> (\<exists>v. cli_days_from c = Some v \<and> v \<noteq> 0)"
    by (simp add: provided_params_def parse_args_def create_parser_def split: option.splits)
  have m3: "''days_to'' \<in> set ?pp \<longleftrightarrow> (\<exists>v. cli_days_to c = Some v \<and> v \<noteq> 2)"
    by (simp add: provided_params_def parse_args_def create_parser_def split: option.splits)
  have m4: "''status_filter'' \<in> set ?pp
      \<longleftrightarrow> (\<exists>v. cli_status_filter c = Some v \<and> v \<noteq> ''completed'')"
    by (simp add: provided_params_def parse_args_def create_parser_def split: option.splits)
  have "\<exists>x. x \<in> set ?pp"
    using assms(2) m1 m2 m3 m4 by metis
  then have ne: "?pp \<noteq> []"
    by auto
  have v: "validate_args ?a create_parser
      = Inl (ValueError (''The following parameters are not valid with 'resume' action: '' @
                         str_join '', '' ?pp))"
    using ne assms(1) by (simp add: validate_args_def parse_args_action)
  have "main w c = (1, w)"
    by (simp add: main_def main_try_def v)
  with v ne m1 m2 m3 m4 show ?thesis by blast
qed

lemma resume_rejects_changed_pause_params_sample:
  "cli_action cli_resume_days = Resume \<and> cli_days_to cli_resume_days = Some 7
   \<and> validate_args (parse_args create_parser cli_resume_days) create_parser
       = Inl (ValueError
           ''The following parameters are not valid with 'resume' action: days_to'')
   \<and> main world_resume cli_resume_days = (1, world_resume)"
proof -
  have a: "cli_action cli_resume_days = Resume"
    by (simp add: cli_resume_days_def cli_resume_def)
  have d: "cli_days_to cli_resume_days = Some 7"
    by (simp add: cli_resume_days_def)
  then have h: "cli_cache_mount cli_resume_days \<noteq> None
         \<or> (\<exists>v. cli_days_from cli_resume_days = Some v \<and> v \<noteq> 0)
         \<or> (\<exists>v. cli_days_to cli_resume_days = Some v \<and> v \<noteq> 2)
         \<or> (\<exists>v. cli_status_filter cli_resume_days = Some v \<and> v \<noteq> ''completed'')"
    by simp
  have p: "provided_params (parse_args create_parser cli_resume_days) create_parser
             = [''days_to'']"
    by (simp add: provided_params_def parse_args_def create_parser_def cli_resume_days_def
        cli_resume_def cli_pause_def)
  from resume_rejects_changed_pause_params [OF a h, of world_resume] a d show ?thesis
    by (simp add: p)
qed

text \<open>
  C7, at the input where the code departs from it. The command line
  \<open>resume --days-to 2\<close> supplies a pause-only flag, with the value that is also its
  default. The namespace parsed from it is the namespace of a plain \<open>resume\<close>, the
  comparison with the defaults finds no parameter, and \<open>validate_args\<close> raises no
  error.
\<close>

theorem resume_default_valued_flag_accepted:
  "cli_action cli_resume_default_days = Resume
   \<and> cli_days_to cli_resume_default_days = Some 2
   \<and> parse_args create_parser cli_resume_default_days = parse_args create_parser cli_resume
   \<and> provided_params (parse_args create_parser cli_resume_default_days) create_parser = []
   \<and> validate_args (parse_args create_parser cli_resume_default_days) create_parser = Inr ()"
  by (simp add: validate_args_def provided_params_def parse_args_def create_parser_def
      cli_resume_default_days_def cli_resume_def cli_pause_def)

text \<open>
  C8. A pause whose \<open>days_from\<close> exceeds its \<open>days_to\<close> is rejected with the
  configuration error: \<open>main\<close> ends with exit code 1 and leaves the world as it found
  it, with no call made on the client or the file system.
\<close>

theorem pause_rejects_inverted_window:
  assumes "cli_action c = Pause"
    and "days_from (parse_args create_parser c) > days_to (parse_args create_parser c)"
  shows "main_try w (parse_args create_parser c) create_parser
           = (Inl (ValueError ''Config Error: days_from must be set lower than days_to''), w)
       \<and> main w c = (1, w)"
proof -
  have "validate_args (parse_args create_parser c) create_parser = Inr ()"
    using assms(1) by (simp add: validate_args_pause parse_args_action)
  then have "main_try w (parse_args create_parser c) create_parser
      = (Inl (ValueError ''Config Error: days_from must be set lower than days_to''), w)"
    using assms by (simp add: main_try_def parse_args_action pause_branch_def)
  then show ?thesis
    by (simp add: main_def)
qed

theorem pause_rejects_inverted_window_witness:
  "days_from (parse_args create_parser cli_pause_inverted) = 5
   \<and> days_to (parse_args create_parser cli_pause_inverted) = 2
   \<and> main world_pause cli_pause_inverted = (1, world_pause)"
proof -
  have a: "cli_action cli_pause_inverted = Pause"
    by (simp add: cli_pause_inverted_def cli_pause_def)
  have f: "days_from (parse_args create_parser cli_pause_inverted) = 5"
    by (simp add: parse_args_def cli_pause_inverted_def)
  have t: "days_to (parse_args create_parser cli_pause_inverted) = 2"
    by (simp add: parse_args_def cli_pause_inverted_def)
  have g: "days_from (parse_args create_parser cli_pause_inverted)
             > days_to (parse_args create_parser cli_pause_inverted)"
    by (simp add: f t)
  from pause_rejects_inverted_window [OF a g, of world_pause] f t show ?thesis
    by blast
qed

subsection \<open>The executor\<close>

lemma torrent_pause_ok:
  "pause_error (client w) (hash t) = None \<Longrightarrow>
   torrent_pause w t =
     (Inr (), w\<lparr>trace := trace w @ [EPause (hash t)],
                client := (client w)\<lparr>paused := insert (hash t) (paused (client w))\<rparr>\<rparr>)"
  by (simp add: torrent_pause_def emit_def)

lemma torrent_pause_fail:
  "pause_error (client w) (hash t) = Some m \<Longrightarrow>
   torrent_pause w t = (Inl (ClientError m), w\<lparr>trace := trace w @ [EPause (hash t)]\<rparr>)"
  by (simp add: torrent_pause_def emit_def)


lemma fromtimestamp_error_emit [simp]:
  "fromtimestamp_error (emit ev w) t = fromtimestamp_error w t"
  by (simp add: fromtimestamp_error_def emit_def)

text \<open>The log line raises: the loop ends before the call on that torrent.\<close>

lemma manage_torrents_log_line_raises:
  "fromtimestamp_error w (added_on t) = Some e \<Longrightarrow>
   manage_torrents w (t # ts) pause = (Inl e, w)"
  by simp

text \<open>
  The bounds of the window are timestamps of dates that exist, so every selected
  torrent has an \<open>added_on\<close> that \<open>datetime.fromtimestamp\<close> accepts.
\<close>

lemma days_ago_in_range:
  "days_ago w d = Inr x \<Longrightarrow> \<exists>r. x = Finite r \<and> ts_lo w \<le> r \<and> r \<le> ts_hi w"
  by (auto simp: days_ago_def split: if_splits)

lemma selected_log_line_ok:
  assumes "days_ago w d1 = Inr tfrom"
    and "days_ago w d2 = Inr tto"
    and "t \<in> set (filter_torrents fsys ts tfrom tto cm)"
  shows "fromtimestamp_error w (added_on t) = None"
proof -
  obtain r1 where r1: "tfrom = Finite r1" "r1 \<le> ts_hi w"
    using days_ago_in_range [OF assms(1)] by blast
  obtain r2 where r2: "tto = Finite r2" "ts_lo w \<le> r2"
    using days_ago_in_range [OF assms(2)] by blast
  have "in_window tfrom tto t"
    using assms(3) by (simp add: filter_torrents_scan)
  then have "r2 \<le> of_int (added_on t)" and "of_int (added_on t) \<le> r1"
    by (simp_all add: in_window_def r1(1) r2(1))
  then have "ts_lo w \<le> of_int (added_on t)" and "of_int (added_on t) \<le> ts_hi w"
    using r1(2) r2(2) by linarith+
  then show ?thesis
    by (simp add: fromtimestamp_error_def)
qed

text \<open>
  A pause that fails at position \<open>k\<close>: the calls made are those on the torrents up to
  and including the \<open>k\<close>-th, the torrents before it are paused, and the exception of the
  \<open>k\<close>-th call is the result.
\<close>

lemma manage_torrents_pause_fails_at:
  assumes "k < length ts"
    and "pause_error (client w) (hash (ts ! k)) = Some m"
    and "\<forall>j<k. pause_error (client w) (hash (ts ! j)) = None"
    and "\<forall>j\<le>k. fromtimestamp_error w (added_on (ts ! j)) = None"
  shows "manage_torrents w ts True =
     (Inl (ClientError m),
      w\<lparr>trace := trace w @ map (\<lambda>t. EPause (hash t)) (take (Suc k) ts),
        client := (client w)\<lparr>paused := paused (client w) \<union> hash ` set (take k ts)\<rparr>\<rparr>)"
  using assms
proof (induction ts arbitrary: w k)
  case Nil
  then show ?case by simp
next
  case (Cons t ts)
  have log: "fromtimestamp_error w (added_on t) = None"
    using Cons.prems(4) by (metis le0 nth_Cons_0)
  show ?case
  proof (cases k)
    case 0
    with Cons.prems log show ?thesis
      by (simp add: torrent_pause_fail)
  next
    case (Suc n)
    let ?w' = "w\<lparr>trace := trace w @ [EPause (hash t)],
                  client := (client w)\<lparr>paused := insert (hash t) (paused (client w))\<rparr>\<rparr>"
    have first: "pause_error (client w) (hash t) = None"
      using Cons.prems(3) Suc by auto
    have len: "n < length ts"
      using Cons.prems(1) Suc by simp
    have at: "pause_error (client ?w') (hash (ts ! n)) = Some m"
      using Cons.prems(2) Suc by simp
    have before: "\<forall>j<n. pause_error (client ?w') (hash (ts ! j)) = None"
      using Cons.prems(3) Suc by auto
    have "\<forall>j\<le>n. fromtimestamp_error w (added_on (ts ! j)) = None"
      using Cons.prems(4) Suc by (metis Suc_le_mono nth_Cons_Suc)
    moreover have "fromtimestamp_error ?w' = fromtimestamp_error w"
      by (rule ext) (simp add: fromtimestamp_error_def)
    ultimately have logs: "\<forall>j\<le>n. fromtimestamp_error ?w' (added_on (ts ! j)) = None"
      by simp
    have "manage_torrents w (t # ts) True = manage_torrents ?w' ts True"
      by (simp add: log torrent_pause_ok [OF first])
    also have "\<dots> =
       (Inl (ClientError m),
        ?w'\<lparr>trace := trace ?w' @ map (\<lambda>t. EPause (hash t)) (take (Suc n) ts),
            client := (client ?w')\<lparr>paused := paused (client ?w') \<union> hash ` set (take n ts)\<rparr>\<rparr>)"
      by (rule Cons.IH [OF len at before logs])
    finally show ?thesis
      using Suc by simp
  qed
qed


lemma select_saved_list:
  assumes "py_getitem state ''torrent_hashes'' = Inr (JArr hs)"
  shows "select_saved state snapshot = Inr (filter (\<lambda>t. JStr (hash t) \<in> set hs) snapshot)"
  using assms by (induction snapshot) simp_all

subsection \<open>The pause phase\<close>

text \<open>
  C9. In the pause phase, when the pause call fails for the \<open>k\<close>-th selected torrent
  and for none before it, the exception reaches the handler of \<open>main\<close> and the exit
  code is 1. The calls made are the connection, the listing, the selection and the
  pauses of the torrents up to and including the \<open>k\<close>-th: no later torrent is touched
  and the state file is not saved, the file system being as it was. The torrents
  before the \<open>k\<close>-th stay paused.
\<close>

theorem pause_failure_aborts_run:
  assumes "cli_action c = Pause"
    and "a = parse_args create_parser c"
    and "days_from a \<le> days_to a"
    and "connect (client w) (host a) (user a) (password a) = Connected"
    and "days_ago w (days_from a) = Inr tfrom"
    and "days_ago w (days_to a) = Inr tto"
    and "torrents = filter_torrents (fs w) (info_sorted (client w) (status_filter a))
                      tfrom tto (cache_mount a)"
    and "k < length torrents"
    and "pause_error (client w) (hash (torrents ! k)) = Some m"
    and "\<forall>j<k. pause_error (client w) (hash (torrents ! j)) = None"
  shows "main_try w a create_parser =
           (Inl (ClientError m),
            w\<lparr>trace := trace w @ [EConnect (host a), EListSorted (status_filter a), EFilter]
                          @ map (\<lambda>t. EPause (hash t)) (take (Suc k) torrents),
              client := (client w)\<lparr>paused := paused (client w)
                                              \<union> hash ` set (take k torrents)\<rparr>\<rparr>)
       \<and> fst (main w c) = 1
       \<and> fs (snd (main w c)) = fs w
       \<and> trace (snd (main w c)) =
           trace w @ [EConnect (host a), EListSorted (status_filter a), EFilter]
             @ map (\<lambda>t. EPause (hash t)) (take (Suc k) torrents)
       \<and> paused (client (snd (main w c))) = paused (client w) \<union> hash ` set (take k torrents)"
proof -
  let ?w2 = "emit EFilter (emit (EListSorted (status_filter a)) (emit (EConnect (host a)) w))"
  have act: "action a = Pause"
    using assms(1,2) by (simp add: parse_args_action)
  have ne: "torrents \<noteq> []"
    using assms(8) by auto
  have cl: "client ?w2 = client w"
    by (simp add: emit_def)
  have tr: "trace ?w2 = trace w @ [EConnect (host a), EListSorted (status_filter a), EFilter]"
    by (simp add: emit_def)
  have "\<forall>t \<in> set torrents. fromtimestamp_error w (added_on t) = None"
    using selected_log_line_ok [OF assms(5,6)] assms(7) by blast
  then have logs: "\<forall>j\<le>k. fromtimestamp_error w (added_on (torrents ! j)) = None"
    using assms(8) by simp
  have "manage_torrents ?w2 torrents True =
     (Inl (ClientError m),
      ?w2\<lparr>trace := trace ?w2 @ map (\<lambda>t. EPause (hash t)) (take (Suc k) torrents),
          client := (client ?w2)\<lparr>paused := paused (client ?w2)
                                            \<union> hash ` set (take k torrents)\<rparr>\<rparr>)"
    using assms(8,9,10) logs by (intro manage_torrents_pause_fails_at) (simp_all add: cl)
  then have mt: "manage_torrents ?w2 torrents True =
     (Inl (ClientError m),
      w\<lparr>trace := trace w @ [EConnect (host a), EListSorted (status_filter a), EFilter]
                    @ map (\<lambda>t. EPause (hash t)) (take (Suc k) torrents),
        client := (client w)\<lparr>paused := paused (client w) \<union> hash ` set (take k torrents)\<rparr>\<rparr>)"
    by (simp add: emit_def)
  have pb: "pause_branch w a =
     (Inl (ClientError m),
      w\<lparr>trace := trace w @ [EConnect (host a), EListSorted (status_filter a), EFilter]
                    @ map (\<lambda>t. EPause (hash t)) (take (Suc k) torrents),
        client := (client w)\<lparr>paused := paused (client w) \<union> hash ` set (take k torrents)\<rparr>\<rparr>)"
    using assms(3,4,5,6) ne mt
    by (simp add: pause_branch_def Let_def assms(7) [symmetric])
  have mtry: "main_try w a create_parser =
     (Inl (ClientError m),
      w\<lparr>trace := trace w @ [EConnect (host a), EListSorted (status_filter a), EFilter]
                    @ map (\<lambda>t. EPause (hash t)) (take (Suc k) torrents),
        client := (client w)\<lparr>paused := paused (client w) \<union> hash ` set (take k torrents)\<rparr>\<rparr>)"
    using act pb by (simp add: main_try_def validate_args_pause)
  have mn: "main w c =
     (1,
      w\<lparr>trace := trace w @ [EConnect (host a), EListSorted (status_filter a), EFilter]
                    @ map (\<lambda>t. EPause (hash t)) (take (Suc k) torrents),
        client := (client w)\<lparr>paused := paused (client w) \<union> hash ` set (take k torrents)\<rparr>\<rparr>)"
    using mtry by (simp add: main_def assms(2) [symmetric])
  show ?thesis
    by (simp add: mtry mn)
qed

lemma parsed_cli_pause:
  "host (parse_args create_parser cli_pause) = ''localhost:8080''"
  "user (parse_args create_parser cli_pause) = ''admin''"
  "password (parse_args create_parser cli_pause) = ''adminadmin''"
  "cache_mount (parse_args create_parser cli_pause) = None"
  "days_from (parse_args create_parser cli_pause) = 0"
  "days_to (parse_args create_parser cli_pause) = 2"
  "status_filter (parse_args create_parser cli_pause) = ''completed''"
  "state_file (parse_args create_parser cli_pause) = ''./qbit_mover_state.json''"
  by (simp_all add: parse_args_def create_parser_def cli_pause_def)

lemma world_pause_fields:
  "fs world_pause = fs_work" "client world_pause = qbit_pause" "trace world_pause = []"
  "clock world_pause = sample_clock" "ts_lo world_pause = 0" "ts_hi world_pause = 1000"
  by (simp_all add: world_pause_def)

lemma qbit_pause_fields:
  "connect qbit_pause h u p = Connected"
  "info_sorted qbit_pause f = [t_new, t_mid, t_old]"
  "pause_error qbit_pause ''H1'' = None"
  "pause_error qbit_pause ''H2'' = Some ''Conflict''"
  "paused qbit_pause = {}"
  by (simp_all add: qbit_pause_def)

lemma selected_sample:
  "filter_torrents fsys [t_new, t_mid, t_old] (Finite 120) (Finite 40) None = [t_new, t_mid]"
  by (simp add: window_samples added_on_samples cache_ok_def)

theorem pause_failure_aborts_run_witness:
  "fst (main world_pause cli_pause) = 1
   \<and> fs (snd (main world_pause cli_pause)) = fs_work
   \<and> trace (snd (main world_pause cli_pause)) =
       [EConnect ''localhost:8080'', EListSorted ''completed'', EFilter,
        EPause ''H1'', EPause ''H2'']
   \<and> paused (client (snd (main world_pause cli_pause))) = {''H1''}"
proof -
  let ?a = "parse_args create_parser cli_pause"
  have h1: "cli_action cli_pause = Pause"
    by (simp add: cli_pause_def)
  have h3: "days_from ?a \<le> days_to ?a"
    by (simp add: parsed_cli_pause)
  have h4: "connect (client world_pause) (host ?a) (user ?a) (password ?a) = Connected"
    by (simp add: world_pause_fields qbit_pause_fields)
  have h5: "days_ago world_pause (days_from ?a) = Inr (Finite 120)"
    by (simp add: days_ago_def world_pause_fields parsed_cli_pause sample_clock_def)
  have h6: "days_ago world_pause (days_to ?a) = Inr (Finite 40)"
    by (simp add: days_ago_def world_pause_fields parsed_cli_pause sample_clock_def)
  have h7: "[t_new, t_mid] = filter_torrents (fs world_pause)
      (info_sorted (client world_pause) (status_filter ?a)) (Finite 120) (Finite 40)
      (cache_mount ?a)"
    by (simp only: world_pause_fields qbit_pause_fields parsed_cli_pause selected_sample)
  have h8: "1 < length [t_new, t_mid]"
    by simp
  have h9: "pause_error (client world_pause) (hash ([t_new, t_mid] ! 1)) = Some ''Conflict''"
    by (simp add: world_pause_fields qbit_pause_fields hash_samples)
  have h10: "\<forall>j<1. pause_error (client world_pause) (hash ([t_new, t_mid] ! j)) = None"
    by (simp add: world_pause_fields qbit_pause_fields hash_samples)
  from pause_failure_aborts_run [OF h1 refl h3 h4 h5 h6 h7 h8 h9 h10]
  show ?thesis
    by (simp add: world_pause_fields qbit_pause_fields parsed_cli_pause hash_samples)
qed

subsection \<open>The resume phase\<close>











text \<open>
  When the log line of the first torrent of the batch raises, the exception reaches
  the handler of \<open>main\<close>: no resume call is made and the state file is left in place.
\<close>

lemma resume_log_line_failure_keeps_state_file:
  assumes "action a = Resume"
    and "validate_args a p = Inr ()"
    and "load_torrent_state (fs w) (state_file a) = Inr state"
    and "py_getitem state ''torrent_hashes'' = Inr (JArr hs)"
    and "connect (client w) (host a) (user a) (password a) = Connected"
    and "filter (\<lambda>t. JStr (hash t) \<in> set hs) (info_all (client w)) = t # rest"
    and "fromtimestamp_error w (added_on t) = Some e"
  shows "main_try w a p =
           (Inl e, emit EListAll (emit (EConnect (host a)) (emit (ELoad (state_file a)) w)))"
proof -
  have sel: "select_saved state (info_all (client w)) = Inr (t # rest)"
    using select_saved_list [OF assms(4)] assms(6) by simp
  show ?thesis
    using assms(1,2,3,5,7) sel
    by (simp add: main_try_def resume_branch_def Let_def)
qed

subsection \<open>A probe error in a whole run\<close>

text \<open>
  C6, as stated, fails: the probe of the content path of \<open>t_new\<close> under the cache
  mount ends in a permission error, \<open>t_new\<close> lies in the window, and yet the selection
  returns (the empty list, as it would were the path simply absent) and the run ends
  with exit code 0.
\<close>

lemma parsed_cli_pause_cache:
  "host (parse_args create_parser cli_pause_cache) = ''localhost:8080''"
  "cache_mount (parse_args create_parser cli_pause_cache) = Some ''/mnt/cache''"
  "days_from (parse_args create_parser cli_pause_cache) = 0"
  "days_to (parse_args create_parser cli_pause_cache) = 1"
  "action (parse_args create_parser cli_pause_cache) = Pause"
  by (simp_all add: parse_args_def create_parser_def cli_pause_cache_def cli_pause_def)

lemma world_denied_fields:
  "fs world_denied = fs_denied" "client world_denied = qbit_pause"
  "clock world_denied = sample_clock" "ts_lo world_denied = 0" "ts_hi world_denied = 1000"
  by (simp_all add: world_denied_def)

lemma denied_selection:
  "filter_torrents fs_denied [t_new, t_mid, t_old] (Finite 120) (Finite 80)
     (Some ''/mnt/cache'') = []"
  by (simp add: in_window_def added_on_samples cache_ok_def exists_in_cache_def
      probe_samples os_path_exists_def fs_denied_def)

theorem probe_permission_error_counterexample:
  "stat fs_denied (os_path_join ''/mnt/cache'' (lstrip_slash (content_path t_new)))
     = StatOSError ''[Errno 13] Permission denied''
   \<and> in_window (Finite 120) (Finite 80) t_new
   \<and> filter_torrents fs_denied [t_new, t_mid, t_old] (Finite 120) (Finite 80)
       (Some ''/mnt/cache'') = []
   \<and> filter_torrents fs_empty [t_new, t_mid, t_old] (Finite 120) (Finite 80)
       (Some ''/mnt/cache'') = []
   \<and> fst (main world_denied cli_pause_cache) = 0"
proof -
  let ?a = "parse_args create_parser cli_pause_cache"
  have s: "stat fs_denied (os_path_join ''/mnt/cache'' (lstrip_slash (content_path t_new)))
      = StatOSError ''[Errno 13] Permission denied''"
    by (simp add: probe_samples fs_denied_def)
  have i: "in_window (Finite 120) (Finite 80) t_new"
    by (simp add: in_window_def added_on_samples)
  have e: "filter_torrents fs_empty [t_new, t_mid, t_old] (Finite 120) (Finite 80)
      (Some ''/mnt/cache'') = []"
    by (simp add: in_window_def added_on_samples cache_ok_def exists_in_cache_def
        probe_samples os_path_exists_def fs_empty_def)
  have cn: "connect (client world_denied) (host ?a) (user ?a) (password ?a) = Connected"
    by (simp add: world_denied_fields qbit_pause_fields)
  have d1: "days_ago world_denied (days_from ?a) = Inr (Finite 120)"
    by (simp add: days_ago_def world_denied_fields parsed_cli_pause_cache sample_clock_def)
  have d2: "days_ago world_denied (days_to ?a) = Inr (Finite 80)"
    by (simp add: days_ago_def world_denied_fields parsed_cli_pause_cache sample_clock_def)
  have sel: "filter_torrents (fs world_denied)
      (info_sorted (client world_denied) (status_filter ?a)) (Finite 120) (Finite 80)
      (cache_mount ?a) = []"
    by (simp only: world_denied_fields qbit_pause_fields parsed_cli_pause_cache
        denied_selection)
  have le: "\<not> days_from ?a > days_to ?a"
    by (simp add: parsed_cli_pause_cache)
  have "fst (pause_branch world_denied ?a) = Inr ()"
    by (simp add: pause_branch_def cn d1 d2 sel le)
  then have "fst (main world_denied cli_pause_cache) = 0"
    by (cases "pause_branch world_denied ?a")
      (simp add: main_def main_try_def validate_args_pause parsed_cli_pause_cache)
  with s i e denied_selection show ?thesis
    by blast
qed

end
